theory Spec2Isabelle
  imports Complex_Main
begin

section \<open>Python and the operating system, as the notebooks use them\<close>

text \<open>
  The repository is a teaching environment: two notebooks stored in
  \<^verbatim>\<open>notebooks/practice-exercise-1.ipynb\<close> (the practice exercise, and the
  regression-kriging walk-through), a Dockerfile and a README. The cells of the
  notebooks are the program. Every cell is embedded as a function from the
  values it reads to the values it binds, and an exception is a value \<open>Inl e\<close> of
  a sum type. What the shell commands do, and what the geostatistics and
  machine-learning packages compute, is not in the repository: each such call
  is a parameter of the cell that makes it, so that a theorem about a cell
  holds whatever the call does.

  The exceptions: Python's own, by class (\<open>Raised\<close> names any other class), and
  the errors the specification of the workflow names for its components.
\<close>

datatype pyerr =
    KeyError string
  | IndexError
  | CalledProcessError int
  | Raised string
  | InvalidFractionError
  | InsufficientDataError
  | DimensionMismatchError

text \<open>
  \<^verbatim>\<open>subprocess.run(cmd, shell=True, capture_output=True, text=True)\<close> returns a
  \<^verbatim>\<open>CompletedProcess\<close>. With \<^verbatim>\<open>capture_output=True\<close> the child's output is kept in
  the returned object; otherwise it goes to the notebook's output. Only
  \<^verbatim>\<open>check=True\<close> turns a non-zero exit status into an exception.
\<close>

record completed_process =
  returncode :: int
  stdout :: "string option"
  stderr :: "string option"

text \<open>
  The operating system around a cell: the working directory of the kernel
  process (a child process cannot change it), the listing of a directory in a
  world \<open>'w\<close>, and what a shell command does to the world. The shell reports an
  exit status and the text the command wrote.
\<close>

record 'w os =
  getcwd :: string
  listdir :: "'w \<Rightarrow> string \<Rightarrow> string list"
  shell :: "string \<Rightarrow> 'w \<Rightarrow> (int \<times> string \<times> string) \<times> 'w"

text \<open>The state a cell threads: the world, and the lines the notebook has displayed.\<close>

record 'w session =
  world :: "'w"
  displayed :: "string list"

definition print :: "string \<Rightarrow> 'w session \<Rightarrow> 'w session" where
  "print line s = s\<lparr>displayed := displayed s @ [line]\<rparr>"

definition subprocess_run ::
  "'w os \<Rightarrow> string \<Rightarrow> bool \<Rightarrow> bool \<Rightarrow> 'w session \<Rightarrow> pyerr + (completed_process \<times> 'w session)"
where
  "subprocess_run sys cmd capture_output check s =
     (case shell sys cmd (world s) of
        ((rc, out, err), w') \<Rightarrow>
          let s' = (if capture_output then s\<lparr>world := w'\<rparr>
                    else s\<lparr>world := w', displayed := displayed s @ [out, err]\<rparr>);
              cp = \<lparr>returncode = rc,
                    stdout = (if capture_output then Some out else None),
                    stderr = (if capture_output then Some err else None)\<rparr>
          in if check \<and> rc \<noteq> 0 then Inl (CalledProcessError rc) else Inr (cp, s'))"

text \<open>\<^verbatim>\<open>os.path.join(p)\<close> with a single component is that component.\<close>

definition os_path_join1 :: "string \<Rightarrow> string" where
  "os_path_join1 p = p"

section \<open>The data-acquisition cell\<close>

text \<open>
  Both notebooks open with the same cell:
  \<^verbatim>\<open>
  if "data-geoml" not in os.listdir(os.getcwd()):
      subprocess.run('wget "https://.../data-geoml.zip"', shell=True, capture_output=True, text=True)
      subprocess.run('unzip "data-geoml.zip"', shell=True, capture_output=True, text=True)
      if "data-geoml.zip" not in os.listdir(os.getcwd()):
          print("Has a directory called data-geoml been downloaded ...")
      else:
          print("Data download OK")

  DATA_PATH = os.path.join(os.getcwd())
  \<close>
  The cell returns the session it leaves and the value bound to \<^verbatim>\<open>DATA_PATH\<close>.
\<close>

definition wget_cmd :: string where
  "wget_cmd = ''wget '' @ [CHR 0x22] @
     ''https://github.com/envt-5566/geo-ml/raw/main/data/data-geoml.zip'' @ [CHR 0x22]"

definition unzip_cmd :: string where
  "unzip_cmd = ''unzip '' @ [CHR 0x22] @ ''data-geoml.zip'' @ [CHR 0x22]"

definition retry_hint :: string where
  "retry_hint = ''Has a directory called data-geoml been downloaded and placed in your working directory? If not, try re-executing this code chunk''"

definition download_ok :: string where
  "download_ok = ''Data download OK''"

definition data_cell :: "'w os \<Rightarrow> 'w session \<Rightarrow> pyerr + ('w session \<times> string)" where
  "data_cell sys s =
     (if ''data-geoml'' \<notin> set (listdir sys (world s) (getcwd sys)) then
        (case subprocess_run sys wget_cmd True False s of
           Inl e \<Rightarrow> Inl e
         | Inr (_, s1) \<Rightarrow>
             (case subprocess_run sys unzip_cmd True False s1 of
                Inl e \<Rightarrow> Inl e
              | Inr (_, s2) \<Rightarrow>
                  let s3 = (if ''data-geoml.zip'' \<notin> set (listdir sys (world s2) (getcwd sys))
                            then print retry_hint s2
                            else print download_ok s2)
                  in Inr (s3, os_path_join1 (getcwd sys))))
      else Inr (s, os_path_join1 (getcwd sys)))"

text \<open>The world after the two commands of the cell, in the order the cell runs them.\<close>

definition after_download :: "'w os \<Rightarrow> 'w \<Rightarrow> 'w" where
  "after_download sys w = snd (shell sys unzip_cmd (snd (shell sys wget_cmd w)))"

section \<open>Data frames and arrays\<close>

text \<open>
  A data frame is its named columns, in order, each the values of one attribute
  over all records; a geometry column holds points. \<^verbatim>\<open>to_numpy()\<close> turns a
  series into a one-dimensional array and a frame into a two-dimensional array
  of rows. The operations are those the notebook calls, with the exceptions
  pandas raises for a missing label.
\<close>

datatype cell = Num real | Str string | Point real real

type_synonym dataframe = "(string \<times> cell list) list"

datatype ndarray = A1 "cell list" | A2 "cell list list"

definition andthen :: "pyerr + 'a \<Rightarrow> ('a \<Rightarrow> pyerr + 'b) \<Rightarrow> pyerr + 'b" where
  "andthen r f = (case r of Inl e \<Rightarrow> Inl e | Inr v \<Rightarrow> f v)"

fun traverse :: "('a \<Rightarrow> pyerr + 'b) \<Rightarrow> 'a list \<Rightarrow> pyerr + 'b list" where
  "traverse f [] = Inr []"
| "traverse f (x # xs) =
     andthen (f x) (\<lambda>v. andthen (traverse f xs) (\<lambda>vs. Inr (v # vs)))"

definition loc_column :: "dataframe \<Rightarrow> string \<Rightarrow> pyerr + cell list" where
  "loc_column df name =
     (case map_of df name of None \<Rightarrow> Inl (KeyError name) | Some col \<Rightarrow> Inr col)"

definition loc_columns :: "dataframe \<Rightarrow> string list \<Rightarrow> pyerr + dataframe" where
  "loc_columns df names =
     traverse (\<lambda>name. andthen (loc_column df name) (\<lambda>col. Inr (name, col))) names"

definition loc_assign :: "dataframe \<Rightarrow> string \<Rightarrow> cell list \<Rightarrow> dataframe" where
  "loc_assign df name col =
     (if name \<in> fst ` set df
      then map (\<lambda>(k, c). if k = name then (k, col) else (k, c)) df
      else df @ [(name, col)])"

definition drop_columns :: "dataframe \<Rightarrow> string list \<Rightarrow> pyerr + dataframe" where
  "drop_columns df names =
     (case filter (\<lambda>name. name \<notin> fst ` set df) names of
        [] \<Rightarrow> Inr (filter (\<lambda>(k, c). k \<notin> set names) df)
      | name # _ \<Rightarrow> Inl (KeyError name))"

definition nrows :: "dataframe \<Rightarrow> nat" where
  "nrows df = (case df of [] \<Rightarrow> 0 | (_, col) # _ \<Rightarrow> length col)"

definition to_numpy :: "dataframe \<Rightarrow> ndarray" where
  "to_numpy df = A2 (map (\<lambda>i. map (\<lambda>(_, col). col ! i) df) [0..<nrows df])"

definition series_to_numpy :: "cell list \<Rightarrow> ndarray" where
  "series_to_numpy col = A1 col"

text \<open>\<^verbatim>\<open>a.T\<close>: a one-dimensional array is its own transpose.\<close>

fun array_T :: "ndarray \<Rightarrow> ndarray" where
  "array_T (A1 xs) = A1 xs"
| "array_T (A2 rows) = A2 (transpose rows)"

text \<open>\<^verbatim>\<open>gdf.geometry.x\<close> and \<^verbatim>\<open>gdf.geometry.y\<close>: defined for point geometries only.\<close>

fun point_x :: "cell \<Rightarrow> pyerr + cell" where
  "point_x (Point px py) = Inr (Num px)"
| "point_x _ = Inl (Raised ''ValueError'')"

fun point_y :: "cell \<Rightarrow> pyerr + cell" where
  "point_y (Point px py) = Inr (Num py)"
| "point_y _ = Inl (Raised ''ValueError'')"

definition geometry :: "dataframe \<Rightarrow> pyerr + cell list" where
  "geometry df =
     (case map_of df ''geometry'' of
        None \<Rightarrow> Inl (Raised ''AttributeError'')
      | Some col \<Rightarrow> Inr col)"

section \<open>The third-party packages, as the notebook calls them\<close>

text \<open>
  GeoPandas, GSTools, scikit-learn and PyKrige are not part of the repository.
  Each call the regression-kriging notebook makes into them is a field of the
  record below: a function of the arguments the notebook passes, which returns
  a value or raises. A theorem about the notebook is stated for every such
  record.
\<close>

record mlp_params =
  hidden_layer_sizes :: "nat list"
  random_state :: int
  solver :: string
  max_iter :: nat

record rk_params =
  regression_model :: mlp_params
  n_closest_points :: nat
  variogram_model :: string
  coordinates_type :: string

record ('cov, 'sc, 'rk, 'mlp) packages =
  read_file :: "string \<Rightarrow> pyerr + dataframe"
  KM_SCALE :: real
  vario_estimate :: "ndarray \<Rightarrow> ndarray \<Rightarrow> bool \<Rightarrow> real \<Rightarrow> pyerr + ndarray list"
  Exponential :: "bool \<Rightarrow> real \<Rightarrow> pyerr + 'cov"
  fit_variogram :: "'cov \<Rightarrow> ndarray list \<Rightarrow> pyerr + 'cov"
  train_test_split :: "ndarray list \<Rightarrow> real \<Rightarrow> int \<Rightarrow> pyerr + ndarray list"
  StandardScaler_fit :: "ndarray \<Rightarrow> pyerr + 'sc"
  transform :: "'sc \<Rightarrow> ndarray \<Rightarrow> pyerr + ndarray"
  RegressionKriging_fit :: "rk_params \<Rightarrow> ndarray \<Rightarrow> ndarray \<Rightarrow> ndarray \<Rightarrow> pyerr + 'rk"
  RegressionKriging_predict :: "'rk \<Rightarrow> ndarray \<Rightarrow> ndarray \<Rightarrow> pyerr + ndarray"
  MLPRegressor_fit :: "mlp_params \<Rightarrow> ndarray \<Rightarrow> ndarray \<Rightarrow> pyerr + 'mlp"
  MLPRegressor_predict :: "'mlp \<Rightarrow> ndarray \<Rightarrow> pyerr + ndarray"
  mean_squared_error :: "ndarray \<Rightarrow> ndarray \<Rightarrow> pyerr + real"

section \<open>The regression-kriging notebook\<close>

text \<open>
  The code cells of the regression-kriging notebook, in the order of the file.
  A cell reads and binds global variables; here it takes the values it reads and
  returns the values it binds. Statements that only install or import a
  package, show a table, draw a figure or print a number bind nothing a later
  cell reads and are left out, and so is the last code cell, which loads
  another data set once the predictions are made.
\<close>

definition os_path_join :: "string \<Rightarrow> string \<Rightarrow> string" where
  "os_path_join a b =
     (if a = [] then b else if last a = CHR ''/'' then a @ b else a @ ''/'' @ b)"

text \<open>\<^verbatim>\<open>gdf = gpd.read_file(os.path.join(DATA_PATH, "plant_species_south_america.gpkg"))\<close>\<close>

definition load_cell :: "('cov, 'sc, 'rk, 'mlp) packages \<Rightarrow> string \<Rightarrow> pyerr + dataframe" where
  "load_cell pk DATA_PATH =
     read_file pk (os_path_join DATA_PATH ''plant_species_south_america.gpkg'')"

text \<open>
  \<^verbatim>\<open>
  gdf.loc[:, "x"] = gdf.geometry.x
  gdf.loc[:, "y"] = gdf.geometry.y
  data = gdf.loc[:, "Species_richness"].to_numpy().T
  pos = gdf.loc[:, ["x", "y"]].to_numpy().T
  \<close>
  The cell changes \<^verbatim>\<open>gdf\<close> in place and binds \<^verbatim>\<open>data\<close> and \<^verbatim>\<open>pos\<close>.
\<close>

definition coordinates_cell :: "dataframe \<Rightarrow> pyerr + (dataframe \<times> ndarray \<times> ndarray)" where
  "coordinates_cell gdf =
     andthen (geometry gdf) (\<lambda>g.
     andthen (traverse point_x g) (\<lambda>xs.
     let gdf1 = loc_assign gdf ''x'' xs in
     andthen (geometry gdf1) (\<lambda>g1.
     andthen (traverse point_y g1) (\<lambda>ys.
     let gdf2 = loc_assign gdf1 ''y'' ys in
     andthen (loc_column gdf2 ''Species_richness'') (\<lambda>col.
     let data = array_T (series_to_numpy col) in
     andthen (loc_columns gdf2 [''x'', ''y'']) (\<lambda>xy.
     let pos = array_T (to_numpy xy) in
     Inr (gdf2, data, pos)))))))"

text \<open>\<^verbatim>\<open>emp_v = gs.vario_estimate(pos, data, latlon=True, geo_scale=gs.KM_SCALE)\<close>\<close>

definition variogram_cell ::
  "('cov, 'sc, 'rk, 'mlp) packages \<Rightarrow> ndarray \<Rightarrow> ndarray \<Rightarrow> pyerr + ndarray list" where
  "variogram_cell pk pos data = vario_estimate pk pos data True (KM_SCALE pk)"

text \<open>
  \<^verbatim>\<open>
  exp = gs.Exponential(latlon=True, geo_scale=gs.KM_SCALE)
  exp.fit_variogram(*emp_v)
  \<close>
\<close>

definition model_variogram_cell ::
  "('cov, 'sc, 'rk, 'mlp) packages \<Rightarrow> ndarray list \<Rightarrow> pyerr + 'cov" where
  "model_variogram_cell pk emp_v =
     andthen (Exponential pk True (KM_SCALE pk)) (\<lambda>e. fit_variogram pk e emp_v)"

text \<open>
  \<^verbatim>\<open>
  pos = gdf.loc[:, ["x", "y"]].to_numpy()
  gdf_tmp = gdf.drop(columns=["PlotObservationID", "GIVD_ID", "Country", "Biome", "geometry", "x", "y"])
  X = gdf_tmp.drop(columns=["Species_richness"]).to_numpy()
  y = gdf_tmp.loc[:, "Species_richness"].to_numpy()
  X_train, X_test, pos_train, pos_test, y_train, y_test =
      train_test_split(X, pos, y, test_size=0.3, random_state=4)
  \<close>
  Unpacking a sequence that does not have six elements raises \<^verbatim>\<open>ValueError\<close>.
\<close>

record split_vars =
  v_pos :: ndarray
  v_gdf_tmp :: dataframe
  v_X :: ndarray
  v_y :: ndarray
  v_X_train :: ndarray
  v_X_test :: ndarray
  v_pos_train :: ndarray
  v_pos_test :: ndarray
  v_y_train :: ndarray
  v_y_test :: ndarray

definition split_cell :: "('cov, 'sc, 'rk, 'mlp) packages \<Rightarrow> dataframe \<Rightarrow> pyerr + split_vars" where
  "split_cell pk gdf =
     andthen (loc_columns gdf [''x'', ''y'']) (\<lambda>xy.
     let pos = to_numpy xy in
     andthen (drop_columns gdf [''PlotObservationID'', ''GIVD_ID'', ''Country'', ''Biome'',
                                ''geometry'', ''x'', ''y'']) (\<lambda>gdf_tmp.
     andthen (drop_columns gdf_tmp [''Species_richness'']) (\<lambda>predictors.
     let X = to_numpy predictors in
     andthen (loc_column gdf_tmp ''Species_richness'') (\<lambda>col.
     let y = series_to_numpy col in
     andthen (train_test_split pk [X, pos, y] (3 / 10) 4) (\<lambda>parts.
     case parts of
       [X_train, X_test, pos_train, pos_test, y_train, y_test] \<Rightarrow>
         Inr \<lparr>v_pos = pos, v_gdf_tmp = gdf_tmp, v_X = X, v_y = y,
              v_X_train = X_train, v_X_test = X_test,
              v_pos_train = pos_train, v_pos_test = pos_test,
              v_y_train = y_train, v_y_test = y_test\<rparr>
     | _ \<Rightarrow> Inl (Raised ''ValueError''))))))"

text \<open>
  \<^verbatim>\<open>
  scaler = StandardScaler().fit(X_train)
  X_train_scaled = scaler.transform(X_train)
  X_test_scaled = scaler.transform(X_test)
  \<close>
\<close>

definition scale_cell ::
  "('cov, 'sc, 'rk, 'mlp) packages \<Rightarrow> ndarray \<Rightarrow> ndarray \<Rightarrow> pyerr + ('sc \<times> ndarray \<times> ndarray)" where
  "scale_cell pk X_train X_test =
     andthen (StandardScaler_fit pk X_train) (\<lambda>scaler.
     andthen (transform pk scaler X_train) (\<lambda>X_train_scaled.
     andthen (transform pk scaler X_test) (\<lambda>X_test_scaled.
     Inr (scaler, X_train_scaled, X_test_scaled))))"

text \<open>
  \<^verbatim>\<open>regr_rk = MLPRegressor(hidden_layer_sizes=(50,), random_state=4, solver="sgd", max_iter=500)\<close>
\<close>

definition regr_rk :: mlp_params where
  "regr_rk = \<lparr>hidden_layer_sizes = [50], random_state = 4, solver = ''sgd'', max_iter = 500\<rparr>"

text \<open>
  \<^verbatim>\<open>
  m_rk = RegressionKriging(regression_model=regr_rk, n_closest_points=10,
                           variogram_model="exponential", coordinates_type="geographic")
  \<close>
\<close>

definition m_rk :: rk_params where
  "m_rk = \<lparr>regression_model = regr_rk, n_closest_points = 10,
           variogram_model = ''exponential'', coordinates_type = ''geographic''\<rparr>"

text \<open>
  \<^verbatim>\<open>m_rk.fit(X_train_scaled, pos_train, y_train)\<close> fits the object in place; the
  fitted object is the value of the cell.
\<close>

definition fit_cell ::
  "('cov, 'sc, 'rk, 'mlp) packages \<Rightarrow> ndarray \<Rightarrow> ndarray \<Rightarrow> ndarray \<Rightarrow> pyerr + 'rk" where
  "fit_cell pk X_train_scaled pos_train y_train =
     RegressionKriging_fit pk m_rk X_train_scaled pos_train y_train"

text \<open>\<^verbatim>\<open>y_rk_test_preds = m_rk.predict(X_test_scaled, pos_test)\<close>\<close>

definition predict_cell ::
  "('cov, 'sc, 'rk, 'mlp) packages \<Rightarrow> 'rk \<Rightarrow> ndarray \<Rightarrow> ndarray \<Rightarrow> pyerr + ndarray" where
  "predict_cell pk fitted X_test_scaled pos_test =
     RegressionKriging_predict pk fitted X_test_scaled pos_test"

text \<open>\<^verbatim>\<open>test_mse = mean_squared_error(y_test, y_rk_test_preds)\<close>\<close>

definition evaluate_cell ::
  "('cov, 'sc, 'rk, 'mlp) packages \<Rightarrow> ndarray \<Rightarrow> ndarray \<Rightarrow> pyerr + real" where
  "evaluate_cell pk y_test y_rk_test_preds = mean_squared_error pk y_test y_rk_test_preds"

text \<open>
  \<^verbatim>\<open>
  regr = MLPRegressor(hidden_layer_sizes=(50,), random_state=4, solver="sgd", max_iter=500)
  regr.fit(X_train_scaled, y_train)
  y_test_preds = regr.predict(X_test_scaled)
  test_mse = mean_squared_error(y_test, y_test_preds)
  \<close>
\<close>

definition regr :: mlp_params where
  "regr = \<lparr>hidden_layer_sizes = [50], random_state = 4, solver = ''sgd'', max_iter = 500\<rparr>"

definition baseline_cell ::
  "('cov, 'sc, 'rk, 'mlp) packages \<Rightarrow> ndarray \<Rightarrow> ndarray \<Rightarrow> ndarray \<Rightarrow> ndarray \<Rightarrow>
     pyerr + ('mlp \<times> ndarray \<times> real)" where
  "baseline_cell pk X_train_scaled y_train X_test_scaled y_test =
     andthen (MLPRegressor_fit pk regr X_train_scaled y_train) (\<lambda>fitted.
     andthen (MLPRegressor_predict pk fitted X_test_scaled) (\<lambda>y_test_preds.
     andthen (mean_squared_error pk y_test y_test_preds) (\<lambda>test_mse.
     Inr (fitted, y_test_preds, test_mse))))"

text \<open>
  The variables of the notebook after its cells have run in order. \<^verbatim>\<open>pos\<close> and
  \<^verbatim>\<open>test_mse\<close> are bound twice; \<open>v_pos\<close> and \<open>v_test_mse\<close> hold the last binding,
  \<open>v_pos_T\<close> and \<open>v_rk_test_mse\<close> the first.
\<close>

record ('cov, 'sc, 'rk, 'mlp) variables = split_vars +
  v_gdf :: dataframe
  v_data :: ndarray
  v_pos_T :: ndarray
  v_emp_v :: "ndarray list"
  v_exp :: "'cov"
  v_scaler :: "'sc"
  v_X_train_scaled :: ndarray
  v_X_test_scaled :: ndarray
  v_m_rk :: "'rk"
  v_y_rk_test_preds :: ndarray
  v_rk_test_mse :: real
  v_regr :: "'mlp"
  v_y_test_preds :: ndarray
  v_test_mse :: real

definition regression_kriging_notebook ::
  "('cov, 'sc, 'rk, 'mlp) packages \<Rightarrow> string \<Rightarrow> pyerr + ('cov, 'sc, 'rk, 'mlp) variables" where
  "regression_kriging_notebook pk DATA_PATH =
     andthen (load_cell pk DATA_PATH) (\<lambda>gdf0.
     andthen (coordinates_cell gdf0) (\<lambda>(gdf, data, pos_T).
     andthen (variogram_cell pk pos_T data) (\<lambda>emp_v.
     andthen (model_variogram_cell pk emp_v) (\<lambda>exp_model.
     andthen (split_cell pk gdf) (\<lambda>sp.
     andthen (scale_cell pk (v_X_train sp) (v_X_test sp)) (\<lambda>(scaler, X_train_scaled, X_test_scaled).
     andthen (fit_cell pk X_train_scaled (v_pos_train sp) (v_y_train sp)) (\<lambda>fitted.
     andthen (predict_cell pk fitted X_test_scaled (v_pos_test sp)) (\<lambda>y_rk_test_preds.
     andthen (evaluate_cell pk (v_y_test sp) y_rk_test_preds) (\<lambda>rk_test_mse.
     andthen (baseline_cell pk X_train_scaled (v_y_train sp) X_test_scaled (v_y_test sp))
       (\<lambda>(fitted_regr, y_test_preds, test_mse).
     Inr (split_vars.extend sp
       \<lparr>v_gdf = gdf, v_data = data, v_pos_T = pos_T, v_emp_v = emp_v, v_exp = exp_model,
        v_scaler = scaler, v_X_train_scaled = X_train_scaled,
        v_X_test_scaled = X_test_scaled, v_m_rk = fitted,
        v_y_rk_test_preds = y_rk_test_preds, v_rk_test_mse = rk_test_mse,
        v_regr = fitted_regr, v_y_test_preds = y_test_preds,
        v_test_mse = test_mse\<rparr>)))))))))))"

section \<open>The Splitter\<close>

text \<open>
  The notebook splits its three arrays with
  \<^verbatim>\<open>sklearn.model_selection.train_test_split\<close>, which the repository does not
  contain. The definitions of this section follow the specification of the
  workflow (its Splitter, and the train/test partition of its data model)
  instead, in the calling convention of the notebook: any number of arrays, a
  test fraction and a seed go in, and \<^verbatim>\<open>a_train, a_test\<close> for each array \<^verbatim>\<open>a\<close>
  in turn come out.
\<close>

text \<open>
  Modelled from the spec: the alignment of the arrays (the same index is the
  same record). The length of an array is its number of records, and indexing
  an array with a list of record indices keeps the records in the order of the
  list; an index out of range raises, as Python's indexing does.
\<close>

fun array_len :: "ndarray \<Rightarrow> nat" where
  "array_len (A1 xs) = length xs"
| "array_len (A2 rows) = length rows"

fun rows_at :: "nat list \<Rightarrow> ndarray \<Rightarrow> ndarray" where
  "rows_at idx (A1 xs) = A1 (map (\<lambda>i. xs ! i) idx)"
| "rows_at idx (A2 rows) = A2 (map (\<lambda>i. rows ! i) idx)"

definition safe_indexing :: "ndarray \<Rightarrow> nat list \<Rightarrow> pyerr + ndarray" where
  "safe_indexing a idx =
     (if \<forall>i \<in> set idx. i < array_len a then Inr (rows_at idx a) else Inl IndexError)"

text \<open>
  Modelled from the spec: the index partition of the Splitter, which is missing
  from the sources. The test set is a simple random sample without replacement
  of about \<open>p \<cdot> n\<close> of the \<open>n\<close> records: the first \<open>\<lceil>p \<cdot> n\<rceil>\<close> records in the order
  \<open>permutation seed n\<close> in which the generator seeded with \<open>seed\<close> visits them (a
  parameter); the training set is the rest. \<^verbatim>\<open>InvalidFractionError\<close> when \<open>p\<close> is
  not in \<open>(0, 1)\<close>; \<^verbatim>\<open>InsufficientDataError\<close> when a side would be empty.
\<close>

definition split_indices ::
  "(int \<Rightarrow> nat \<Rightarrow> nat list) \<Rightarrow> nat \<Rightarrow> real \<Rightarrow> int \<Rightarrow> pyerr + (nat list \<times> nat list)" where
  "split_indices permutation n p seed =
     (if \<not> (0 < p \<and> p < 1) then Inl InvalidFractionError
      else let n_test = nat \<lceil>p * real n\<rceil> in
        if n_test = 0 \<or> n - n_test = 0 then Inl InsufficientDataError
        else Inr (drop n_test (permutation seed n), take n_test (permutation seed n)))"

text \<open>
  Modelled from the spec: the Splitter, which is missing from the sources. One
  index partition is drawn for the common length of the arrays and applied to
  every array; arrays of different lengths are a \<^verbatim>\<open>DimensionMismatchError\<close>, and
  a call without an array raises.
\<close>

definition Splitter ::
  "(int \<Rightarrow> nat \<Rightarrow> nat list) \<Rightarrow> ndarray list \<Rightarrow> real \<Rightarrow> int \<Rightarrow> pyerr + ndarray list" where
  "Splitter permutation arrays p seed =
     (case arrays of
        [] \<Rightarrow> Inl (Raised ''ValueError'')
      | a # rest \<Rightarrow>
          if \<exists>b \<in> set rest. array_len b \<noteq> array_len a then Inl DimensionMismatchError
          else
            andthen (split_indices permutation (array_len a) p seed) (\<lambda>(train, test).
            andthen (traverse (\<lambda>arr.
                       andthen (safe_indexing arr train) (\<lambda>arr_train.
                       andthen (safe_indexing arr test) (\<lambda>arr_test.
                       Inr [arr_train, arr_test]))) arrays) (\<lambda>parts.
            Inr (concat parts))))"

section \<open>The Standardizer\<close>

text \<open>
  The notebook standardizes its predictors with
  \<^verbatim>\<open>sklearn.preprocessing.StandardScaler\<close>, which the repository does not
  contain. The definitions of this section follow the specification of the
  workflow (its Standardizer and its scaler state) instead.
\<close>

text \<open>
  Modelled from the spec: the predictor matrix, an ordered sequence of
  fixed-length numeric vectors. An array is read as a matrix of numbers when it
  is two-dimensional and every entry is a number; \<open>floats\<close> is the array of a
  matrix.
\<close>

fun cell_float :: "cell \<Rightarrow> pyerr + real" where
  "cell_float (Num r) = Inr r"
| "cell_float _ = Inl (Raised ''ValueError'')"

fun float_matrix :: "ndarray \<Rightarrow> pyerr + real list list" where
  "float_matrix (A2 rows) = traverse (traverse cell_float) rows"
| "float_matrix (A1 xs) = Inl (Raised ''ValueError'')"

definition floats :: "real list list \<Rightarrow> ndarray" where
  "floats rows = A2 (map (map Num) rows)"

definition column :: "real list list \<Rightarrow> nat \<Rightarrow> real list" where
  "column rows j = map (\<lambda>row. row ! j) rows"

text \<open>
  Modelled from the spec: the scaler state, the mean and the standard deviation
  of every predictor column. The standard deviation is that of the column
  itself: the divisor is the number of rows.
\<close>

definition mean :: "real list \<Rightarrow> real" where
  "mean xs = sum_list xs / real (length xs)"

definition std :: "real list \<Rightarrow> real" where
  "std xs = sqrt (mean (map (\<lambda>x. (x - mean xs)\<^sup>2) xs))"

record scaler_state =
  mu :: "real list"
  sigma :: "real list"

definition training_statistics :: "real list list \<Rightarrow> nat \<Rightarrow> scaler_state" where
  "training_statistics rows k =
     \<lparr>mu = map (\<lambda>j. mean (column rows j)) [0..<k],
      sigma = map (\<lambda>j. std (column rows j)) [0..<k]\<rparr>"

text \<open>
  Modelled from the spec: \<^verbatim>\<open>fit\<close> of the Standardizer, which is missing from the
  sources. It computes the statistics of the columns of the training matrix. A
  mean over no rows is not defined, and \<^verbatim>\<open>fit\<close> fails there; rows of different
  widths are a \<^verbatim>\<open>DimensionMismatchError\<close>.
\<close>

definition Standardizer_fit :: "ndarray \<Rightarrow> pyerr + scaler_state" where
  "Standardizer_fit X_train =
     andthen (float_matrix X_train) (\<lambda>rows.
     case rows of
       [] \<Rightarrow> Inl InsufficientDataError
     | r # _ \<Rightarrow>
         if \<exists>row \<in> set rows. length row \<noteq> length r then Inl DimensionMismatchError
         else Inr (training_statistics rows (length r)))"

text \<open>
  Modelled from the spec: \<^verbatim>\<open>transform\<close> of the Standardizer, which is missing
  from the sources. Every entry becomes \<open>(x - \<mu>) / \<sigma>\<close> with the statistics of its
  column, where \<open>\<sigma> = 0\<close> is treated as \<open>\<sigma> = 1\<close>; a row whose width is not that of
  the scaler is a \<^verbatim>\<open>DimensionMismatchError\<close>.
\<close>

definition standardize :: "scaler_state \<Rightarrow> real list \<Rightarrow> real list" where
  "standardize sc row =
     map (\<lambda>(x, m, s). (x - m) / (if s = 0 then 1 else s)) (zip row (zip (mu sc) (sigma sc)))"

definition Standardizer_transform :: "scaler_state \<Rightarrow> ndarray \<Rightarrow> pyerr + ndarray" where
  "Standardizer_transform sc X =
     andthen (float_matrix X) (\<lambda>rows.
     if \<exists>row \<in> set rows. length row \<noteq> length (mu sc) then Inl DimensionMismatchError
     else Inr (floats (map (standardize sc) rows)))"

section \<open>Concrete runs\<close>

text \<open>
  A run of the cell in a working directory that holds only \<^verbatim>\<open>notebooks\<close>: the
  download leaves the archive, the unzip unpacks it.
\<close>

definition demo_os :: "string list os" where
  "demo_os = \<lparr>getcwd = ''/home/jovyan/work'',
              listdir = (\<lambda>w p. if p = ''/home/jovyan/work'' then w else []),
              shell = (\<lambda>cmd w.
                if cmd = wget_cmd then ((0, '''', ''saved''), w @ [''data-geoml.zip''])
                else if cmd = unzip_cmd \<and> ''data-geoml.zip'' \<in> set w
                  then ((0, ''inflating'', ''''), w @ [''data-geoml''])
                else ((9, '''', ''cannot find''), w))\<rparr>"

text \<open>
  A small data set and stand-ins for the packages, to run the notebook on: the
  split puts the first record in the test set, the scaler is the identity, the
  fitted model is the training target, and a prediction repeats its first value.
\<close>

fun demo_head :: "ndarray \<Rightarrow> ndarray" where
  "demo_head (A1 xs) = A1 (take 1 xs)"
| "demo_head (A2 rows) = A2 (take 1 rows)"

fun demo_tail :: "ndarray \<Rightarrow> ndarray" where
  "demo_tail (A1 xs) = A1 (drop 1 xs)"
| "demo_tail (A2 rows) = A2 (drop 1 rows)"

definition demo_gdf :: dataframe where
  "demo_gdf =
     [(''PlotObservationID'', [Num 1, Num 2, Num 3]),
      (''GIVD_ID'', [Str ''a'', Str ''a'', Str ''b'']),
      (''Country'', [Str ''Peru'', Str ''Chile'', Str ''Chile'']),
      (''Biome'', [Str ''alpine'', Str ''dry'', Str ''dry'']),
      (''Species_richness'', [Num 12, Num 7, Num 9]),
      (''bio_1'', [Num 21, Num 14, Num 15]),
      (''geometry'', [Point (-70) (-12), Point (-71) (-30), Point (-72) (-33)])]"

definition demo_packages :: "(nat, unit, ndarray, unit) packages" where
  "demo_packages =
     \<lparr>read_file = (\<lambda>path. if path = ''/home/jovyan/work/plant_species_south_america.gpkg''
                           then Inr demo_gdf else Inl (Raised ''DriverError'')),
      KM_SCALE = 6371,
      vario_estimate = (\<lambda>pos data latlon geo_scale. Inr [A1 [], A1 []]),
      Exponential = (\<lambda>latlon geo_scale. Inr 0),
      fit_variogram = (\<lambda>e emp_v. Inr (length emp_v)),
      train_test_split = (\<lambda>arrays test_size seed.
         Inr (concat (map (\<lambda>a. [demo_tail a, demo_head a]) arrays))),
      StandardScaler_fit = (\<lambda>X. Inr ()),
      transform = (\<lambda>scaler X. Inr X),
      RegressionKriging_fit = (\<lambda>params X pos y. Inr y),
      RegressionKriging_predict = (\<lambda>fitted X pos. Inr (demo_head fitted)),
      MLPRegressor_fit = (\<lambda>params X y. Inr ()),
      MLPRegressor_predict = (\<lambda>fitted X. Inr (A1 [Num 0])),
      mean_squared_error = (\<lambda>y_true y_pred. Inr 0)\<rparr>"

definition demo_vars :: "ndarray list \<Rightarrow> nat \<Rightarrow> (nat, unit, ndarray, unit) variables" where
  "demo_vars e c =
     \<lparr>v_pos = A2 [[Num (-70), Num (-12)], [Num (-71), Num (-30)], [Num (-72), Num (-33)]],
      v_gdf_tmp = [(''Species_richness'', [Num 12, Num 7, Num 9]), (''bio_1'', [Num 21, Num 14, Num 15])],
      v_X = A2 [[Num 21], [Num 14], [Num 15]],
      v_y = A1 [Num 12, Num 7, Num 9],
      v_X_train = A2 [[Num 14], [Num 15]],
      v_X_test = A2 [[Num 21]],
      v_pos_train = A2 [[Num (-71), Num (-30)], [Num (-72), Num (-33)]],
      v_pos_test = A2 [[Num (-70), Num (-12)]],
      v_y_train = A1 [Num 7, Num 9],
      v_y_test = A1 [Num 12],
      v_gdf = demo_gdf @ [(''x'', [Num (-70), Num (-71), Num (-72)]),
                          (''y'', [Num (-12), Num (-30), Num (-33)])],
      v_data = A1 [Num 12, Num 7, Num 9],
      v_pos_T = A2 [[Num (-70), Num (-71), Num (-72)], [Num (-12), Num (-30), Num (-33)]],
      v_emp_v = e,
      v_exp = c + length e,
      v_scaler = (),
      v_X_train_scaled = A2 [[Num 14], [Num 15]],
      v_X_test_scaled = A2 [[Num 21]],
      v_m_rk = A1 [Num 7, Num 9],
      v_y_rk_test_preds = A1 [Num 7],
      v_rk_test_mse = 0,
      v_regr = (),
      v_y_test_preds = A1 [Num 0],
      v_test_mse = 0\<rparr>"

text \<open>An order of visit that depends on the seed, and the arrays of the small data set.\<close>

definition demo_permutation :: "int \<Rightarrow> nat \<Rightarrow> nat list" where
  "demo_permutation seed n = rotate (nat seed) [0..<n]"

definition demo_X :: ndarray where "demo_X = A2 [[Num 21], [Num 14], [Num 15]]"
definition demo_pos :: ndarray where
  "demo_pos = A2 [[Num (-70), Num (-12)], [Num (-71), Num (-30)], [Num (-72), Num (-33)]]"
definition demo_y :: ndarray where "demo_y = A1 [Num 12, Num 7, Num 9]"

definition demo_gdf_xy :: dataframe where
  "demo_gdf_xy = demo_gdf @ [(''x'', [Num (-70), Num (-71), Num (-72)]),
                            (''y'', [Num (-12), Num (-30), Num (-33)])]"

section \<open>Sequencing calls that may raise\<close>

lemma andthen_Inr: "andthen r f = Inr v \<longleftrightarrow> (\<exists>u. r = Inr u \<and> f u = Inr v)"
  by (cases r) (simp_all add: andthen_def)

lemma andthen_Inr_simp: "andthen (Inr v) f = f v"
  by (simp add: andthen_def)

section \<open>Properties of the data-acquisition cell\<close>

lemma subprocess_run_unchecked:
  "subprocess_run sys cmd True False s =
     Inr (\<lparr>returncode = fst (fst (shell sys cmd (world s))),
           stdout = Some (fst (snd (fst (shell sys cmd (world s))))),
           stderr = Some (snd (snd (fst (shell sys cmd (world s)))))\<rparr>,
          s\<lparr>world := snd (shell sys cmd (world s))\<rparr>)"
  by (simp add: subprocess_run_def split: prod.split)

lemma retry_hint_neq_ok: "retry_hint \<noteq> download_ok"
  by (simp add: retry_hint_def download_ok_def)

text \<open>
  Claim C10. The data-acquisition cell never raises, whatever the two shell
  commands do. When the working directory has no entry named \<^verbatim>\<open>data-geoml\<close>,
  it runs the download and then the unzip, both with captured output, so that
  the only line it displays is its own message: \<^verbatim>\<open>Data download OK\<close> exactly
  when \<^verbatim>\<open>data-geoml.zip\<close> is listed in the working directory afterwards, and the
  retry hint otherwise. When the entry is there, it runs nothing and displays
  nothing. In every case \<^verbatim>\<open>DATA_PATH\<close> is the working directory.
\<close>

theorem data_cell_prints_and_continues:
  "\<exists>s'. data_cell sys s = Inr (s', getcwd sys) \<and>
     (if ''data-geoml'' \<notin> set (listdir sys (world s) (getcwd sys)) then
        world s' = after_download sys (world s) \<and>
        (\<exists>line. displayed s' = displayed s @ [line] \<and>
           (line = download_ok \<longleftrightarrow>
              ''data-geoml.zip'' \<in> set (listdir sys (world s') (getcwd sys))) \<and>
           (line = retry_hint \<longleftrightarrow>
              ''data-geoml.zip'' \<notin> set (listdir sys (world s') (getcwd sys))))
      else s' = s)"
proof (cases "''data-geoml'' \<in> set (listdir sys (world s) (getcwd sys))")
  case True
  then show ?thesis
    by (simp add: data_cell_def os_path_join1_def)
next
  case False
  define w2 where "w2 = after_download sys (world s)"
  define s2 where "s2 = s\<lparr>world := w2\<rparr>"
  have run: "data_cell sys s =
      Inr (if ''data-geoml.zip'' \<notin> set (listdir sys w2 (getcwd sys))
           then print retry_hint s2 else print download_ok s2, getcwd sys)"
    using False
    by (simp add: data_cell_def subprocess_run_unchecked os_path_join1_def
        after_download_def w2_def s2_def)
  show ?thesis
  proof (cases "''data-geoml.zip'' \<in> set (listdir sys w2 (getcwd sys))")
    case True
    then show ?thesis
      using False run retry_hint_neq_ok
      by (auto simp: print_def s2_def w2_def)
  next
    case nozip: False
    then show ?thesis
      using False run retry_hint_neq_ok
      by (auto simp: print_def s2_def w2_def)
  qed
qed

lemma demo_os_after_download:
  "after_download demo_os [''notebooks''] = [''notebooks'', ''data-geoml.zip'', ''data-geoml'']"
  by (simp add: after_download_def demo_os_def wget_cmd_def unzip_cmd_def)

theorem data_cell_prints_and_continues_witness:
  "''data-geoml'' \<notin> set (listdir demo_os [''notebooks''] (getcwd demo_os)) \<and>
   (\<exists>s'. data_cell demo_os \<lparr>world = [''notebooks''], displayed = []\<rparr> =
            Inr (s', ''/home/jovyan/work'') \<and>
          world s' = [''notebooks'', ''data-geoml.zip'', ''data-geoml''] \<and>
          displayed s' = [download_ok])"
proof -
  let ?s = "\<lparr>world = [''notebooks''], displayed = []\<rparr> :: string list session"
  have absent: "''data-geoml'' \<notin> set (listdir demo_os (world ?s) (getcwd demo_os))"
    by (simp add: demo_os_def)
  from data_cell_prints_and_continues [of demo_os ?s]
  obtain s' where run: "data_cell demo_os ?s = Inr (s', getcwd demo_os)"
    and rest: "if ''data-geoml'' \<notin> set (listdir demo_os (world ?s) (getcwd demo_os)) then
        world s' = after_download demo_os (world ?s) \<and>
        (\<exists>line. displayed s' = displayed ?s @ [line] \<and>
           (line = download_ok \<longleftrightarrow>
              ''data-geoml.zip'' \<in> set (listdir demo_os (world s') (getcwd demo_os))) \<and>
           (line = retry_hint \<longleftrightarrow>
              ''data-geoml.zip'' \<notin> set (listdir demo_os (world s') (getcwd demo_os))))
      else s' = ?s"
    by blast
  from rest [unfolded if_P [OF absent]]
  obtain line where w: "world s' = after_download demo_os (world ?s)"
    and d: "displayed s' = displayed ?s @ [line]"
    and ok: "line = download_ok \<longleftrightarrow>
        ''data-geoml.zip'' \<in> set (listdir demo_os (world s') (getcwd demo_os))"
    by blast
  have w': "world s' = [''notebooks'', ''data-geoml.zip'', ''data-geoml'']"
    using w demo_os_after_download by simp
  have "line = download_ok"
    using ok w' by (simp add: demo_os_def)
  then have d': "displayed s' = [download_ok]"
    using d by simp
  have cwd: "getcwd demo_os = ''/home/jovyan/work''"
    by (simp add: demo_os_def)
  show ?thesis
    using absent run w' d' cwd by auto
qed

section \<open>The exploratory variogram and the fitted model\<close>

lemma split_cell_frame:
  "split_cell (pk\<lparr>vario_estimate := ve, Exponential := ex, fit_variogram := fv\<rparr>) gdf = split_cell pk gdf"
  by (simp add: split_cell_def)

lemma scale_cell_frame:
  "scale_cell (pk\<lparr>vario_estimate := ve, Exponential := ex, fit_variogram := fv\<rparr>) a b = scale_cell pk a b"
  by (simp add: scale_cell_def)

lemma fit_cell_frame:
  "fit_cell (pk\<lparr>vario_estimate := ve, Exponential := ex, fit_variogram := fv\<rparr>) a b c = fit_cell pk a b c"
  by (simp add: fit_cell_def)

lemma predict_cell_frame:
  "predict_cell (pk\<lparr>vario_estimate := ve, Exponential := ex, fit_variogram := fv\<rparr>) m a b = predict_cell pk m a b"
  by (simp add: predict_cell_def)

lemma load_cell_frame:
  "load_cell (pk\<lparr>vario_estimate := ve, Exponential := ex, fit_variogram := fv\<rparr>) p = load_cell pk p"
  by (simp add: load_cell_def)

lemma notebook_prediction_path:
  assumes "regression_kriging_notebook pk p = Inr s"
  shows "\<exists>gdf0 data pos_T.
     load_cell pk p = Inr gdf0 \<and>
     coordinates_cell gdf0 = Inr (v_gdf s, data, pos_T) \<and>
     split_cell pk (v_gdf s) = Inr (split_vars.truncate s) \<and>
     scale_cell pk (v_X_train s) (v_X_test s) = Inr (v_scaler s, v_X_train_scaled s, v_X_test_scaled s) \<and>
     fit_cell pk (v_X_train_scaled s) (v_pos_train s) (v_y_train s) = Inr (v_m_rk s) \<and>
     predict_cell pk (v_m_rk s) (v_X_test_scaled s) (v_pos_test s) = Inr (v_y_rk_test_preds s)"
  using assms
  unfolding regression_kriging_notebook_def 
  by (auto simp: andthen_Inr split_vars.truncate_def split_vars.extend_def)

text \<open>
  Claim C9. The exploratory empirical variogram and the exponential model fitted
  to it never reach the regression-kriging model. Take two runs of the notebook
  on the same data that differ only in what the three exploratory calls
  (\<^verbatim>\<open>vario_estimate\<close>, \<^verbatim>\<open>Exponential\<close>, \<^verbatim>\<open>fit_variogram\<close>) do. In both, the fitted
  model is \<^verbatim>\<open>RegressionKriging.fit\<close> of the constructor parameters and
  \<^verbatim>\<open>(X_train_scaled, pos_train, y_train)\<close>, the predictions are its \<^verbatim>\<open>predict\<close> on
  \<^verbatim>\<open>(X_test_scaled, pos_test)\<close>, and these arrays, the fitted model and the
  predictions are the same in the two runs.
\<close>

theorem exploratory_variogram_never_reaches_model:
  assumes r1: "regression_kriging_notebook
      (pk\<lparr>vario_estimate := ve1, Exponential := ex1, fit_variogram := fv1\<rparr>) DATA_PATH = Inr s1"
    and r2: "regression_kriging_notebook
      (pk\<lparr>vario_estimate := ve2, Exponential := ex2, fit_variogram := fv2\<rparr>) DATA_PATH = Inr s2"
  shows "RegressionKriging_fit pk m_rk (v_X_train_scaled s1) (v_pos_train s1) (v_y_train s1) = Inr (v_m_rk s1) \<and>
     RegressionKriging_predict pk (v_m_rk s1) (v_X_test_scaled s1) (v_pos_test s1) = Inr (v_y_rk_test_preds s1) \<and>
     v_X_train_scaled s2 = v_X_train_scaled s1 \<and> v_pos_train s2 = v_pos_train s1 \<and> v_y_train s2 = v_y_train s1 \<and>
     v_X_test_scaled s2 = v_X_test_scaled s1 \<and> v_pos_test s2 = v_pos_test s1 \<and>
     v_m_rk s2 = v_m_rk s1 \<and> v_y_rk_test_preds s2 = v_y_rk_test_preds s1"
proof -
  from notebook_prediction_path [OF r1] obtain gdf0 where
    l1: "load_cell pk DATA_PATH = Inr gdf0"
    and c1: "\<exists>data pos_T. coordinates_cell gdf0 = Inr (v_gdf s1, data, pos_T)"
    and sp1: "split_cell pk (v_gdf s1) = Inr (split_vars.truncate s1)"
    and sc1: "scale_cell pk (v_X_train s1) (v_X_test s1) = Inr (v_scaler s1, v_X_train_scaled s1, v_X_test_scaled s1)"
    and f1: "fit_cell pk (v_X_train_scaled s1) (v_pos_train s1) (v_y_train s1) = Inr (v_m_rk s1)"
    and p1: "predict_cell pk (v_m_rk s1) (v_X_test_scaled s1) (v_pos_test s1) = Inr (v_y_rk_test_preds s1)"
    by (auto simp: load_cell_frame split_cell_frame scale_cell_frame fit_cell_frame predict_cell_frame)
  from notebook_prediction_path [OF r2] obtain gdf0' where
    l2: "load_cell pk DATA_PATH = Inr gdf0'"
    and c2: "\<exists>data pos_T. coordinates_cell gdf0' = Inr (v_gdf s2, data, pos_T)"
    and sp2: "split_cell pk (v_gdf s2) = Inr (split_vars.truncate s2)"
    and sc2: "scale_cell pk (v_X_train s2) (v_X_test s2) = Inr (v_scaler s2, v_X_train_scaled s2, v_X_test_scaled s2)"
    and f2: "fit_cell pk (v_X_train_scaled s2) (v_pos_train s2) (v_y_train s2) = Inr (v_m_rk s2)"
    and p2: "predict_cell pk (v_m_rk s2) (v_X_test_scaled s2) (v_pos_test s2) = Inr (v_y_rk_test_preds s2)"
    by (auto simp: load_cell_frame split_cell_frame scale_cell_frame fit_cell_frame predict_cell_frame)
  have g: "v_gdf s2 = v_gdf s1"
    using l1 l2 c1 c2 by auto
  have t: "split_vars.truncate s2 = split_vars.truncate s1"
    using sp1 sp2 g by simp
  have sv: "v_X_train s2 = v_X_train s1" "v_X_test s2 = v_X_test s1"
    "v_pos_train s2 = v_pos_train s1" "v_pos_test s2 = v_pos_test s1" "v_y_train s2 = v_y_train s1"
    using t by (simp_all add: split_vars.truncate_def)
  have sc: "v_X_train_scaled s2 = v_X_train_scaled s1" "v_X_test_scaled s2 = v_X_test_scaled s1"
    using sc1 sc2 sv by simp_all
  have m: "v_m_rk s2 = v_m_rk s1"
    using f1 f2 sc sv by simp
  have p: "v_y_rk_test_preds s2 = v_y_rk_test_preds s1"
    using p1 p2 m sc sv by simp
  show ?thesis
    using f1 p1 sv sc m p by (simp add: fit_cell_def predict_cell_def)
qed


text \<open>The notebook on the small data set, for any result of the exploratory calls.\<close>

lemma demo_coordinates:
  "coordinates_cell demo_gdf = Inr (demo_gdf @ [(''x'', [Num (-70), Num (-71), Num (-72)]), (''y'', [Num (-12), Num (-30), Num (-33)])],
     A1 [Num 12, Num 7, Num 9], A2 [[Num (-70), Num (-71), Num (-72)], [Num (-12), Num (-30), Num (-33)]])"
  by (simp add: coordinates_cell_def demo_gdf_def geometry_def andthen_def loc_assign_def
      loc_column_def loc_columns_def to_numpy_def nrows_def series_to_numpy_def upt_rec numeral_nat
      transpose.simps)


lemma evaluate_cell_frame:
  "evaluate_cell (pk\<lparr>vario_estimate := ve, Exponential := ex, fit_variogram := fv\<rparr>) a b = evaluate_cell pk a b"
  by (simp add: evaluate_cell_def)

lemma baseline_cell_frame:
  "baseline_cell (pk\<lparr>vario_estimate := ve, Exponential := ex, fit_variogram := fv\<rparr>) a b c d = baseline_cell pk a b c d"
  by (simp add: baseline_cell_def)

lemma demo_split:
  "split_cell demo_packages
     (demo_gdf @ [(''x'', [Num (-70), Num (-71), Num (-72)]), (''y'', [Num (-12), Num (-30), Num (-33)])])
   = Inr (split_vars.truncate (demo_vars e c))"
  by (simp add: split_cell_def demo_gdf_def demo_packages_def andthen_def drop_columns_def
      loc_column_def loc_columns_def to_numpy_def nrows_def series_to_numpy_def upt_rec numeral_nat
      split_vars.truncate_def demo_vars_def)

lemma demo_cells:
  "load_cell demo_packages ''/home/jovyan/work'' = Inr demo_gdf"
  "scale_cell demo_packages X_train X_test = Inr ((), X_train, X_test)"
  "fit_cell demo_packages X_train_scaled pos_train y_train = Inr y_train"
  "predict_cell demo_packages fitted X_test_scaled pos_test = Inr (demo_head fitted)"
  "evaluate_cell demo_packages y_test preds = Inr 0"
  "baseline_cell demo_packages X_train_scaled y_train X_test_scaled y_test = Inr ((), A1 [Num 0], 0)"
  "variogram_cell (demo_packages\<lparr>vario_estimate := (\<lambda>pos data latlon geo_scale. Inr e),
        Exponential := (\<lambda>latlon geo_scale. Inr c),
        fit_variogram := (\<lambda>m emp_v. Inr (m + length emp_v))\<rparr>) pos_T data = Inr e"
  "model_variogram_cell (demo_packages\<lparr>vario_estimate := ve, Exponential := (\<lambda>latlon geo_scale. Inr c),
        fit_variogram := (\<lambda>m emp_v. Inr (m + length emp_v))\<rparr>) e = Inr (c + length e)"
  by (simp_all add: load_cell_def os_path_join_def scale_cell_def fit_cell_def predict_cell_def
      evaluate_cell_def baseline_cell_def variogram_cell_def model_variogram_cell_def
      demo_packages_def andthen_def)

lemma demo_run:
  "regression_kriging_notebook
     (demo_packages\<lparr>vario_estimate := (\<lambda>pos data latlon geo_scale. Inr e),
        Exponential := (\<lambda>latlon geo_scale. Inr c),
        fit_variogram := (\<lambda>m emp_v. Inr (m + length emp_v))\<rparr>)
     ''/home/jovyan/work'' = Inr (demo_vars e c)"
  unfolding regression_kriging_notebook_def
  by (simp add: andthen_Inr_simp load_cell_frame split_cell_frame scale_cell_frame fit_cell_frame
      predict_cell_frame evaluate_cell_frame baseline_cell_frame demo_cells demo_coordinates
      demo_split [where e = e and c = c] split_vars.truncate_def split_vars.extend_def demo_vars_def)

theorem exploratory_variogram_never_reaches_model_witness:
  "\<exists>s1 s2.
     regression_kriging_notebook
       (demo_packages\<lparr>vario_estimate := (\<lambda>pos data latlon geo_scale. Inr [A1 [Num 100], A1 [Num 5]]),
          Exponential := (\<lambda>latlon geo_scale. Inr 1),
          fit_variogram := (\<lambda>m emp_v. Inr (m + length emp_v))\<rparr>)
       ''/home/jovyan/work'' = Inr s1 \<and>
     regression_kriging_notebook
       (demo_packages\<lparr>vario_estimate := (\<lambda>pos data latlon geo_scale. Inr []),
          Exponential := (\<lambda>latlon geo_scale. Inr 0),
          fit_variogram := (\<lambda>m emp_v. Inr (m + length emp_v))\<rparr>)
       ''/home/jovyan/work'' = Inr s2 \<and>
     v_emp_v s1 \<noteq> v_emp_v s2 \<and> v_exp s1 \<noteq> v_exp s2 \<and>
     v_m_rk s2 = v_m_rk s1 \<and> v_y_rk_test_preds s2 = v_y_rk_test_preds s1 \<and>
     v_y_rk_test_preds s1 = A1 [Num 7]"
proof -
  note r1 = demo_run [where e = "[A1 [Num 100], A1 [Num 5]]" and c = 1]
  note r2 = demo_run [where e = "[]" and c = 0]
  from exploratory_variogram_never_reaches_model [OF r1 r2]
  have "v_m_rk (demo_vars [] 0) = v_m_rk (demo_vars [A1 [Num 100], A1 [Num 5]] 1)"
    and "v_y_rk_test_preds (demo_vars [] 0) = v_y_rk_test_preds (demo_vars [A1 [Num 100], A1 [Num 5]] 1)"
    by simp_all
  moreover have "v_emp_v (demo_vars [A1 [Num 100], A1 [Num 5]] 1) \<noteq> v_emp_v (demo_vars [] 0)"
    "v_exp (demo_vars [A1 [Num 100], A1 [Num 5]] 1) \<noteq> v_exp (demo_vars [] 0)"
    "v_y_rk_test_preds (demo_vars [A1 [Num 100], A1 [Num 5]] 1) = A1 [Num 7]"
    by (simp_all add: demo_vars_def)
  ultimately show ?thesis
    using r1 r2 by blast
qed

section \<open>The train/test partition\<close>

lemma split_indices_run:
  assumes "0 < p" "p < 1" "0 < k" "k < n" "k = nat \<lceil>p * real n\<rceil>"
  shows "split_indices permutation n p seed =
     Inr (drop k (permutation seed n), take k (permutation seed n))"
proof -
  have "\<not> (k = 0 \<or> n - k = 0)" using assms(3,4) by simp
  with assms(1,2,5) show ?thesis
    by (simp add: split_indices_def Let_def)
qed

lemma split_indices_partition:
  assumes "distinct (permutation seed n)" "set (permutation seed n) = {..<n}"
    and "0 < p" "p < 1" "nat \<lceil>p * real n\<rceil> < n"
  shows "\<exists>train test. split_indices permutation n p seed = Inr (train, test) \<and>
     set train \<inter> set test = {} \<and> set train \<union> set test = {..<n} \<and>
     distinct train \<and> distinct test \<and> length test = nat \<lceil>p * real n\<rceil> \<and>
     length train = n - nat \<lceil>p * real n\<rceil> \<and> train \<noteq> [] \<and> test \<noteq> []"
proof -
  define perm where "perm = permutation seed n"
  define k where "k = nat \<lceil>p * real n\<rceil>"
  have n: "0 < n" using assms(5) by simp
  have pn: "0 < p * real n" using assms(3) n by simp
  then have k: "0 < k" by (simp add: k_def)
  have kn: "k < n" using assms(5) by (simp add: k_def)
  have len: "length perm = n"
    using assms(1,2) distinct_card [of perm] by (simp add: perm_def)
  have run: "split_indices permutation n p seed = Inr (drop k perm, take k perm)"
    unfolding perm_def by (rule split_indices_run [OF assms(3,4) k kn k_def])
  have "distinct (take k perm @ drop k perm)"
    using assms(1) by (simp add: perm_def)
  then have d: "distinct (take k perm)" "distinct (drop k perm)"
    "set (take k perm) \<inter> set (drop k perm) = {}"
    by (simp_all only: distinct_append) 
  have "set (take k perm @ drop k perm) = {..<n}"
    using assms(2) by (simp add: perm_def)
  then have u: "set (drop k perm) \<union> set (take k perm) = {..<n}"
    by (simp only: set_append Un_commute)
  have l: "length (take k perm) = k" "length (drop k perm) = n - k"
    using len kn by simp_all
  have ne: "drop k perm \<noteq> []" "take k perm \<noteq> []"
    using l k kn by auto
  show ?thesis
    apply (rule exI [of _ "drop k perm"], rule exI [of _ "take k perm"])
    using run d u l ne by (simp add: k_def [symmetric] Int_commute)
qed


lemma safe_indexing_in_range:
  "set idx \<subseteq> {..<array_len a} \<Longrightarrow> safe_indexing a idx = Inr (rows_at idx a)"
  by (auto simp: safe_indexing_def)

text \<open>The Splitter on three aligned arrays: one pair of index lists, applied to each.\<close>

lemma Splitter_draws_one_partition:
  assumes perm: "distinct (permutation seed n)" "set (permutation seed n) = {..<n}"
    and aligned: "array_len X = n" "array_len pos = n" "array_len y = n"
    and frac: "0 < p" "p < 1"
    and room: "nat \<lceil>p * real n\<rceil> < n"
  shows "\<exists>train test.
     Splitter permutation [X, pos, y] p seed =
       Inr [rows_at train X, rows_at test X,
            rows_at train pos, rows_at test pos,
            rows_at train y, rows_at test y] \<and>
     set train \<inter> set test = {} \<and> set train \<union> set test = {..<n} \<and>
     distinct train \<and> distinct test \<and>
     length test = nat \<lceil>p * real n\<rceil> \<and> train \<noteq> [] \<and> test \<noteq> []"
proof -
  from split_indices_partition [of permutation seed n p, OF perm frac room]
  obtain train test where
    idx: "split_indices permutation n p seed = Inr (train, test)"
    and part: "set train \<inter> set test = {}" "set train \<union> set test = {..<n}"
    and rest: "distinct train" "distinct test" "length test = nat \<lceil>p * real n\<rceil>"
      "train \<noteq> []" "test \<noteq> []"
    by blast
  have sub: "set train \<subseteq> {..<n}" "set test \<subseteq> {..<n}"
    using part(2) by auto
  have ix: "safe_indexing X train = Inr (rows_at train X)"
    "safe_indexing X test = Inr (rows_at test X)"
    "safe_indexing pos train = Inr (rows_at train pos)"
    "safe_indexing pos test = Inr (rows_at test pos)"
    "safe_indexing y train = Inr (rows_at train y)"
    "safe_indexing y test = Inr (rows_at test y)"
    using sub aligned by (simp_all add: safe_indexing_in_range)
  have "Splitter permutation [X, pos, y] p seed =
       Inr [rows_at train X, rows_at test X,
            rows_at train pos, rows_at test pos,
            rows_at train y, rows_at test y]"
    using aligned idx ix by (simp add: Splitter_def andthen_Inr_simp)
  then show ?thesis
    using part rest by blast
qed


lemma demo_permutation_4_3: "demo_permutation 4 3 = [1, 2, 0]"
  by (simp add: demo_permutation_def upt_rec numeral_nat rotate_def rotate1_def)

text \<open>
  Claim C5. The notebook's cell builds \<^verbatim>\<open>pos\<close>, \<^verbatim>\<open>X\<close> and \<^verbatim>\<open>y\<close> from the data frame
  and hands the three to the splitter in one call. For a frame from which the
  three arrays can be read and are aligned over \<open>n\<close> records, a seed whose order
  of visit is a permutation of the \<open>n\<close> records, and a test fraction that leaves
  both sides non-empty, the cell returns, and its six variables are made of one
  pair of index lists \<open>train\<close> and \<open>test\<close>: the two are disjoint, together they
  are all records, and \<^verbatim>\<open>X_train\<close>, \<^verbatim>\<open>pos_train\<close> and \<^verbatim>\<open>y_train\<close> are the rows of
  \<^verbatim>\<open>X\<close>, \<^verbatim>\<open>pos\<close> and \<^verbatim>\<open>y\<close> at \<open>train\<close> (likewise at \<open>test\<close>), so that position \<open>k\<close>
  is record \<open>train ! k\<close> in all three.
\<close>

theorem split_cell_partitions_and_aligns:
  fixes pk :: "('cov, 'sc, 'rk, 'mlp) packages"
  assumes frame:
      "loc_columns gdf [''x'', ''y''] = Inr xy"
      "drop_columns gdf [''PlotObservationID'', ''GIVD_ID'', ''Country'', ''Biome'',
                         ''geometry'', ''x'', ''y''] = Inr gdf_tmp"
      "drop_columns gdf_tmp [''Species_richness''] = Inr predictors"
      "loc_column gdf_tmp ''Species_richness'' = Inr col"
    and aligned: "array_len (to_numpy predictors) = n" "array_len (to_numpy xy) = n"
      "length col = n"
    and perm: "distinct (permutation 4 n)" "set (permutation 4 n) = {..<n}"
    and room: "nat \<lceil>(3 / 10) * real n\<rceil> < n"
  shows "\<exists>train test sp.
     split_cell (pk\<lparr>train_test_split := Splitter permutation\<rparr>) gdf = Inr sp \<and>
     v_X sp = to_numpy predictors \<and> v_pos sp = to_numpy xy \<and> v_y sp = series_to_numpy col \<and>
     v_X_train sp = rows_at train (v_X sp) \<and> v_X_test sp = rows_at test (v_X sp) \<and>
     v_pos_train sp = rows_at train (v_pos sp) \<and> v_pos_test sp = rows_at test (v_pos sp) \<and>
     v_y_train sp = rows_at train (v_y sp) \<and> v_y_test sp = rows_at test (v_y sp) \<and>
     set train \<inter> set test = {} \<and> set train \<union> set test = {..<n} \<and>
     distinct train \<and> distinct test \<and>
     length test = nat \<lceil>(3 / 10) * real n\<rceil> \<and> train \<noteq> [] \<and> test \<noteq> []"
proof -
  let ?X = "to_numpy predictors" and ?pos = "to_numpy xy" and ?y = "series_to_numpy col"
  have y: "array_len ?y = n"
    using aligned(3) by (simp add: series_to_numpy_def)
  have f: "(0 :: real) < 3 / 10" "(3 / 10 :: real) < 1" by simp_all
  from Splitter_draws_one_partition
    [of permutation 4 n ?X ?pos ?y "3 / 10", OF perm aligned(1,2) y f room]
  obtain train test where
    s: "Splitter permutation [?X, ?pos, ?y] (3 / 10) 4 =
       Inr [rows_at train ?X, rows_at test ?X,
            rows_at train ?pos, rows_at test ?pos,
            rows_at train ?y, rows_at test ?y]"
    and part: "set train \<inter> set test = {}" "set train \<union> set test = {..<n}"
      "distinct train" "distinct test" "length test = nat \<lceil>(3 / 10) * real n\<rceil>"
      "train \<noteq> []" "test \<noteq> []"
    by blast
  have "split_cell (pk\<lparr>train_test_split := Splitter permutation\<rparr>) gdf =
      Inr \<lparr>v_pos = ?pos, v_gdf_tmp = gdf_tmp, v_X = ?X, v_y = ?y,
           v_X_train = rows_at train ?X, v_X_test = rows_at test ?X,
           v_pos_train = rows_at train ?pos, v_pos_test = rows_at test ?pos,
           v_y_train = rows_at train ?y, v_y_test = rows_at test ?y\<rparr>"
    by (simp add: split_cell_def frame andthen_Inr_simp s Let_def)
  then show ?thesis
    using part by auto
qed

text \<open>The cell on the small data set, with the splitter plugged in.\<close>

lemma demo_frame:
  "loc_columns demo_gdf_xy [''x'', ''y''] =
     Inr [(''x'', [Num (-70), Num (-71), Num (-72)]), (''y'', [Num (-12), Num (-30), Num (-33)])]"
  "drop_columns demo_gdf_xy [''PlotObservationID'', ''GIVD_ID'', ''Country'', ''Biome'',
                         ''geometry'', ''x'', ''y''] =
     Inr [(''Species_richness'', [Num 12, Num 7, Num 9]), (''bio_1'', [Num 21, Num 14, Num 15])]"
  "drop_columns [(''Species_richness'', [Num 12, Num 7, Num 9]), (''bio_1'', [Num 21, Num 14, Num 15])]
     [''Species_richness''] = Inr [(''bio_1'', [Num 21, Num 14, Num 15])]"
  "loc_column [(''Species_richness'', [Num 12, Num 7, Num 9]), (''bio_1'', [Num 21, Num 14, Num 15])]
     ''Species_richness'' = Inr [Num 12, Num 7, Num 9]"
  by (simp_all add: demo_gdf_xy_def demo_gdf_def loc_columns_def loc_column_def drop_columns_def
      andthen_def)

lemma demo_arrays:
  "to_numpy [(''bio_1'', [Num 21, Num 14, Num 15])] = demo_X"
  "to_numpy [(''x'', [Num (-70), Num (-71), Num (-72)]), (''y'', [Num (-12), Num (-30), Num (-33)])] = demo_pos"
  "series_to_numpy [Num 12, Num 7, Num 9] = demo_y"
  by (simp_all add: to_numpy_def nrows_def series_to_numpy_def demo_X_def demo_pos_def demo_y_def
      upt_rec numeral_nat)


lemma demo_Splitter:
  "Splitter demo_permutation [demo_X, demo_pos, demo_y] (3 / 10) 4 =
     Inr [A2 [[Num 15], [Num 21]], A2 [[Num 14]],
          A2 [[Num (-72), Num (-33)], [Num (-70), Num (-12)]], A2 [[Num (-71), Num (-30)]],
          A1 [Num 9, Num 12], A1 [Num 7]]"
proof -
  have h3: "array_len demo_X = 3" "array_len demo_pos = 3" "array_len demo_y = 3"
    by (simp_all add: demo_X_def demo_pos_def demo_y_def)
  have h4: "nat \<lceil>(3 / 10 :: real) * real (3 :: nat)\<rceil> = 1"
    by simp
  have idx: "split_indices demo_permutation 3 (3 / 10) 4 = Inr ([2, 0], [1])"
    using h4 by (simp add: split_indices_def demo_permutation_4_3)
  have ix: "safe_indexing demo_X [2, 0] = Inr (A2 [[Num 15], [Num 21]])"
    "safe_indexing demo_X [Suc 0] = Inr (A2 [[Num 14]])"
    "safe_indexing demo_pos [2, 0] = Inr (A2 [[Num (-72), Num (-33)], [Num (-70), Num (-12)]])"
    "safe_indexing demo_pos [Suc 0] = Inr (A2 [[Num (-71), Num (-30)]])"
    "safe_indexing demo_y [2, 0] = Inr (A1 [Num 9, Num 12])"
    "safe_indexing demo_y [Suc 0] = Inr (A1 [Num 7])"
    by (simp_all add: safe_indexing_def demo_X_def demo_pos_def demo_y_def)
  show ?thesis
    by (simp add: Splitter_def h3 idx ix andthen_Inr_simp)
qed

theorem split_cell_partitions_and_aligns_witness:
  "split_cell (demo_packages\<lparr>train_test_split := Splitter demo_permutation\<rparr>) demo_gdf_xy =
     Inr \<lparr>v_pos = demo_pos,
          v_gdf_tmp = [(''Species_richness'', [Num 12, Num 7, Num 9]),
                       (''bio_1'', [Num 21, Num 14, Num 15])],
          v_X = demo_X, v_y = demo_y,
          v_X_train = A2 [[Num 15], [Num 21]], v_X_test = A2 [[Num 14]],
          v_pos_train = A2 [[Num (-72), Num (-33)], [Num (-70), Num (-12)]],
          v_pos_test = A2 [[Num (-71), Num (-30)]],
          v_y_train = A1 [Num 9, Num 12], v_y_test = A1 [Num 7]\<rparr> \<and>
   (\<exists>train test sp.
     split_cell (demo_packages\<lparr>train_test_split := Splitter demo_permutation\<rparr>) demo_gdf_xy = Inr sp \<and>
     v_X sp = demo_X \<and> v_pos sp = demo_pos \<and> v_y sp = demo_y \<and>
     v_X_train sp = rows_at train (v_X sp) \<and> v_X_test sp = rows_at test (v_X sp) \<and>
     v_pos_train sp = rows_at train (v_pos sp) \<and> v_pos_test sp = rows_at test (v_pos sp) \<and>
     v_y_train sp = rows_at train (v_y sp) \<and> v_y_test sp = rows_at test (v_y sp) \<and>
     set train \<inter> set test = {} \<and> set train \<union> set test = {..<3} \<and>
     distinct train \<and> distinct test \<and> length test = 1)"
proof -
  have a: "array_len (to_numpy [(''bio_1'', [Num 21, Num 14, Num 15])]) = 3"
    "array_len (to_numpy [(''x'', [Num (-70), Num (-71), Num (-72)]),
                          (''y'', [Num (-12), Num (-30), Num (-33)])]) = 3"
    "length [Num 12, Num 7, Num 9] = 3"
    by (simp_all add: demo_arrays demo_X_def demo_pos_def)
  have p: "distinct (demo_permutation 4 3)" "set (demo_permutation 4 3) = {..<3}"
    by (auto simp: demo_permutation_4_3)
  have h4: "nat \<lceil>(3 / 10 :: real) * real (3 :: nat)\<rceil> = 1"
    by simp
  have r: "nat \<lceil>(3 / 10 :: real) * real (3 :: nat)\<rceil> < 3"
    by (simp only: h4)
  have run: "split_cell (demo_packages\<lparr>train_test_split := Splitter demo_permutation\<rparr>) demo_gdf_xy =
     Inr \<lparr>v_pos = demo_pos,
          v_gdf_tmp = [(''Species_richness'', [Num 12, Num 7, Num 9]),
                       (''bio_1'', [Num 21, Num 14, Num 15])],
          v_X = demo_X, v_y = demo_y,
          v_X_train = A2 [[Num 15], [Num 21]], v_X_test = A2 [[Num 14]],
          v_pos_train = A2 [[Num (-72), Num (-33)], [Num (-70), Num (-12)]],
          v_pos_test = A2 [[Num (-71), Num (-30)]],
          v_y_train = A1 [Num 9, Num 12], v_y_test = A1 [Num 7]\<rparr>"
    by (simp add: split_cell_def demo_frame demo_arrays andthen_Inr_simp demo_Splitter Let_def)
  from split_cell_partitions_and_aligns
    [of demo_gdf_xy _ _ _ _ 3 demo_permutation demo_packages, OF demo_frame a p r]
  have "\<exists>train test sp.
     split_cell (demo_packages\<lparr>train_test_split := Splitter demo_permutation\<rparr>) demo_gdf_xy = Inr sp \<and>
     v_X sp = demo_X \<and> v_pos sp = demo_pos \<and> v_y sp = demo_y \<and>
     v_X_train sp = rows_at train (v_X sp) \<and> v_X_test sp = rows_at test (v_X sp) \<and>
     v_pos_train sp = rows_at train (v_pos sp) \<and> v_pos_test sp = rows_at test (v_pos sp) \<and>
     v_y_train sp = rows_at train (v_y sp) \<and> v_y_test sp = rows_at test (v_y sp) \<and>
     set train \<inter> set test = {} \<and> set train \<union> set test = {..<3} \<and>
     distinct train \<and> distinct test \<and> length test = 1"
    unfolding demo_arrays h4 by blast
  with run show ?thesis by blast
qed

text \<open>
  Conversely, whenever the cell returns, its six variables are the rows of
  \<^verbatim>\<open>X\<close>, \<^verbatim>\<open>pos\<close> and \<^verbatim>\<open>y\<close> at one pair of index lists, whatever the order of
  visit; the pair is a partition of the records when the order of visit is a
  permutation.
\<close>

lemma safe_indexing_Inr: "safe_indexing a idx = Inr b \<Longrightarrow> b = rows_at idx a"
  by (auto simp: safe_indexing_def split: if_splits)

lemma Splitter_Inr:
  assumes "Splitter permutation [X, pos, y] p seed = Inr parts"
  shows "\<exists>train test.
     split_indices permutation (array_len X) p seed = Inr (train, test) \<and>
     parts = [rows_at train X, rows_at test X,
              rows_at train pos, rows_at test pos,
              rows_at train y, rows_at test y]"
  using assms
  by (auto simp: Splitter_def andthen_Inr split: if_splits dest!: safe_indexing_Inr)

lemma split_cell_one_partition:
  assumes "split_cell (pk\<lparr>train_test_split := Splitter permutation\<rparr>) gdf = Inr sp"
  shows "\<exists>train test.
     split_indices permutation (array_len (v_X sp)) (3 / 10) 4 = Inr (train, test) \<and>
     v_X_train sp = rows_at train (v_X sp) \<and> v_X_test sp = rows_at test (v_X sp) \<and>
     v_pos_train sp = rows_at train (v_pos sp) \<and> v_pos_test sp = rows_at test (v_pos sp) \<and>
     v_y_train sp = rows_at train (v_y sp) \<and> v_y_test sp = rows_at test (v_y sp)"
  using assms
  by (auto simp: split_cell_def andthen_Inr Let_def dest!: Splitter_Inr)

lemma split_indices_Inr:
  assumes "split_indices permutation n p seed = Inr (train, test)"
    and "distinct (permutation seed n)" "set (permutation seed n) = {..<n}"
  shows "set train \<inter> set test = {} \<and> set train \<union> set test = {..<n} \<and>
     distinct train \<and> distinct test"
proof -
  define k where "k = nat \<lceil>p * real n\<rceil>"
  have tt: "train = drop k (permutation seed n)" "test = take k (permutation seed n)"
    using assms(1) by (auto simp: split_indices_def Let_def k_def split: if_splits)
  have "distinct (take k (permutation seed n) @ drop k (permutation seed n))"
    using assms(2) by simp
  then have d: "distinct test" "distinct train" "set test \<inter> set train = {}"
    unfolding tt by (simp_all only: distinct_append)
  have "set (take k (permutation seed n) @ drop k (permutation seed n)) = {..<n}"
    using assms(3) by simp
  then have "set train \<union> set test = {..<n}"
    unfolding tt by (simp only: set_append Un_commute)
  then show ?thesis
    using d by (simp add: Int_commute)
qed

lemma split_cell_aligned:
  assumes "split_cell (pk\<lparr>train_test_split := Splitter permutation\<rparr>) gdf = Inr sp"
    and "distinct (permutation 4 (array_len (v_X sp)))"
    and "set (permutation 4 (array_len (v_X sp))) = {..<array_len (v_X sp)}"
  shows "\<exists>train test.
     set train \<inter> set test = {} \<and> set train \<union> set test = {..<array_len (v_X sp)} \<and>
     distinct train \<and> distinct test \<and>
     v_X_train sp = rows_at train (v_X sp) \<and> v_X_test sp = rows_at test (v_X sp) \<and>
     v_pos_train sp = rows_at train (v_pos sp) \<and> v_pos_test sp = rows_at test (v_pos sp) \<and>
     v_y_train sp = rows_at train (v_y sp) \<and> v_y_test sp = rows_at test (v_y sp)"
proof -
  from split_cell_one_partition [OF assms(1)] obtain train test where
    i: "split_indices permutation (array_len (v_X sp)) (3 / 10) 4 = Inr (train, test)"
    and r: "v_X_train sp = rows_at train (v_X sp)" "v_X_test sp = rows_at test (v_X sp)"
      "v_pos_train sp = rows_at train (v_pos sp)" "v_pos_test sp = rows_at test (v_pos sp)"
      "v_y_train sp = rows_at train (v_y sp)" "v_y_test sp = rows_at test (v_y sp)"
    by blast
  from split_indices_Inr [OF i assms(2,3)] r show ?thesis
    by blast
qed

section \<open>Standardizing with training statistics\<close>

lemma traverse_map_Inr: "(\<And>x. x \<in> set xs \<Longrightarrow> f (g x) = Inr x) \<Longrightarrow> traverse f (map g xs) = Inr xs"
  by (induction xs) (simp_all add: andthen_def)

lemma float_matrix_floats: "float_matrix (floats rows) = Inr rows"
  by (simp add: floats_def traverse_map_Inr)

lemma mean_constant:
  assumes "xs \<noteq> []" "\<forall>x \<in> set xs. x = c"
  shows "mean xs = c"
proof -
  have "xs = replicate (length xs) c"
    using assms(2) by (simp add: replicate_length_same)
  then have "sum_list xs = real (length xs) * c"
    by (metis sum_list_replicate)
  then show ?thesis
    using assms(1) by (simp add: mean_def)
qed

lemma std_constant:
  assumes "xs \<noteq> []" "\<forall>x \<in> set xs. x = c"
  shows "std xs = 0"
proof -
  have m: "mean xs = c" by (rule mean_constant [OF assms])
  have "mean (map (\<lambda>x. (x - c)\<^sup>2) xs) = 0"
    by (rule mean_constant) (use assms in auto)
  then show ?thesis by (simp add: std_def m)
qed


lemma Standardizer_fit_floats:
  assumes "X_train \<noteq> []" "\<forall>row \<in> set X_train. length row = k"
  shows "Standardizer_fit (floats X_train) = Inr (training_statistics X_train k)"
proof -
  obtain r rest where X: "X_train = r # rest"
    using assms(1) by (cases X_train) auto
  have "length r = k" using assms(2) X by simp
  moreover have "\<not> (\<exists>row \<in> set X_train. length row \<noteq> length r)"
    using assms(2) \<open>length r = k\<close> by simp
  ultimately show ?thesis
    unfolding Standardizer_fit_def float_matrix_floats andthen_Inr_simp
    using X by simp
qed

lemma Standardizer_transform_floats:
  assumes "length (mu sc) = k" "\<forall>row \<in> set X. length row = k"
  shows "Standardizer_transform sc (floats X) = Inr (floats (map (standardize sc) X))"
  using assms
  unfolding Standardizer_transform_def float_matrix_floats andthen_Inr_simp
  by simp

lemma standardize_nth:
  assumes "length row = k" "j < k"
  shows "standardize (training_statistics rows k) row ! j =
     (row ! j - mean (column rows j)) / (if std (column rows j) = 0 then 1 else std (column rows j))"
  using assms by (simp add: standardize_def training_statistics_def)

lemma column_constant:
  assumes "rows \<noteq> []" "\<forall>row \<in> set rows. row ! j = c"
  shows "mean (column rows j) = c" "std (column rows j) = 0"
proof -
  have ne: "column rows j \<noteq> []" using assms(1) by (simp add: column_def)
  have all: "\<forall>x \<in> set (column rows j). x = c" using assms(2) by (auto simp: column_def)
  show "mean (column rows j) = c" by (rule mean_constant [OF ne all])
  show "std (column rows j) = 0" by (rule std_constant [OF ne all])
qed

text \<open>
  Claim C7. Let \<open>X_train\<close> be a training matrix with at least one row and \<open>k\<close>
  columns, and \<open>X\<close> any matrix with \<open>k\<close> columns. \<^verbatim>\<open>fit\<close> returns the per-column
  mean and standard deviation of the training rows, and nothing else enters
  the scaler. \<^verbatim>\<open>transform\<close> of \<open>X\<close> is, entry by entry, \<open>(x - \<mu>) / \<sigma>\<close> with these
  training statistics, and \<open>\<sigma> = 0\<close> replaced by \<open>1\<close>. The notebook's cell fits once,
  on \<open>X_train\<close>, and transforms both \<open>X_train\<close> and the test matrix with that one
  scaler. For a column that is constant \<open>c\<close> over the training rows, \<open>\<sigma> = 0\<close>, the
  transform subtracts \<open>c\<close>, and the transformed training column is \<open>0\<close>.
\<close>

theorem Standardizer_uses_training_statistics:
  fixes pk :: "('cov, scaler_state, 'rk, 'mlp) packages"
  assumes tr: "X_train \<noteq> []" "\<forall>row \<in> set X_train. length row = k"
    and q: "\<forall>row \<in> set X. length row = k"
  shows "\<exists>sc Y_train Y.
     Standardizer_fit (floats X_train) = Inr sc \<and>
     mu sc = map (\<lambda>j. mean (column X_train j)) [0..<k] \<and>
     sigma sc = map (\<lambda>j. std (column X_train j)) [0..<k] \<and>
     Standardizer_transform sc (floats X_train) = Inr (floats Y_train) \<and>
     Standardizer_transform sc (floats X) = Inr (floats Y) \<and>
     scale_cell (pk\<lparr>StandardScaler_fit := Standardizer_fit, transform := Standardizer_transform\<rparr>)
       (floats X_train) (floats X) = Inr (sc, floats Y_train, floats Y) \<and>
     length Y = length X \<and>
     (\<forall>i < length X. \<forall>j < k.
        Y ! i ! j = (X ! i ! j - mean (column X_train j)) /
                    (if std (column X_train j) = 0 then 1 else std (column X_train j))) \<and>
     (\<forall>j < k. \<forall>c. (\<forall>row \<in> set X_train. row ! j = c) \<longrightarrow>
        std (column X_train j) = 0 \<and>
        (\<forall>i < length X. Y ! i ! j = X ! i ! j - c) \<and>
        (\<forall>i < length X_train. Y_train ! i ! j = 0))"
proof -
  define sc where "sc = training_statistics X_train k"
  define Y_train where "Y_train = map (standardize sc) X_train"
  define Y where "Y = map (standardize sc) X"
  have fit: "Standardizer_fit (floats X_train) = Inr sc"
    unfolding sc_def by (rule Standardizer_fit_floats [OF tr])
  have len: "length (mu sc) = k"
    by (simp add: sc_def training_statistics_def)
  have t1: "Standardizer_transform sc (floats X_train) = Inr (floats Y_train)"
    unfolding Y_train_def by (rule Standardizer_transform_floats [OF len tr(2)])
  have t2: "Standardizer_transform sc (floats X) = Inr (floats Y)"
    unfolding Y_def by (rule Standardizer_transform_floats [OF len q])
  have cell: "scale_cell (pk\<lparr>StandardScaler_fit := Standardizer_fit, transform := Standardizer_transform\<rparr>)
       (floats X_train) (floats X) = Inr (sc, floats Y_train, floats Y)"
    by (simp add: scale_cell_def fit t1 t2 andthen_Inr_simp)
  have formula: "Y ! i ! j = (X ! i ! j - mean (column X_train j)) /
                    (if std (column X_train j) = 0 then 1 else std (column X_train j))"
    if "i < length X" "j < k" for i j
  proof -
    have "length (X ! i) = k" using q that(1) by simp
    then show ?thesis
      using that by (simp add: Y_def sc_def standardize_nth)
  qed
  have formula_train: "Y_train ! i ! j = (X_train ! i ! j - mean (column X_train j)) /
                    (if std (column X_train j) = 0 then 1 else std (column X_train j))"
    if "i < length X_train" "j < k" for i j
  proof -
    have "length (X_train ! i) = k" using tr(2) that(1) by simp
    then show ?thesis
      using that by (simp add: Y_train_def sc_def standardize_nth)
  qed
  have const: "std (column X_train j) = 0 \<and>
        (\<forall>i < length X. Y ! i ! j = X ! i ! j - c) \<and>
        (\<forall>i < length X_train. Y_train ! i ! j = 0)"
    if "j < k" "\<forall>row \<in> set X_train. row ! j = c" for j c
  proof -
    have m: "mean (column X_train j) = c" and s: "std (column X_train j) = 0"
      using column_constant [OF tr(1) that(2)] by simp_all
    have "Y ! i ! j = X ! i ! j - c" if "i < length X" for i
      using formula [OF that \<open>j < k\<close>] by (simp add: m s)
    moreover have "Y_train ! i ! j = 0" if "i < length X_train" for i
    proof -
      have "X_train ! i ! j = c" using \<open>\<forall>row \<in> set X_train. row ! j = c\<close> that by simp
      then show ?thesis
        using formula_train [OF that \<open>j < k\<close>] by (simp add: m s)
    qed
    ultimately show ?thesis using s by blast
  qed
  have stats: "mu sc = map (\<lambda>j. mean (column X_train j)) [0..<k]"
    "sigma sc = map (\<lambda>j. std (column X_train j)) [0..<k]"
    by (simp_all add: sc_def training_statistics_def)
  have "length Y = length X" by (simp add: Y_def)
  then show ?thesis
    using fit stats t1 t2 cell formula const by blast
qed


theorem Standardizer_uses_training_statistics_witness:
  "Standardizer_fit (floats [[1, 5], [3, 5]]) = Inr \<lparr>mu = [2, 5], sigma = [1, 0]\<rparr> \<and>
   Standardizer_transform \<lparr>mu = [2, 5], sigma = [1, 0]\<rparr> (floats [[4, 7]]) = Inr (floats [[2, 2]]) \<and>
   (\<forall>pk :: (unit, scaler_state, unit, unit) packages.
    \<exists>sc Y_train Y.
     Standardizer_fit (floats [[1, 5], [3, 5]]) = Inr sc \<and>
     Standardizer_transform sc (floats [[1, 5], [3, 5]]) = Inr (floats Y_train) \<and>
     Standardizer_transform sc (floats [[4, 7]]) = Inr (floats Y) \<and>
     scale_cell (pk\<lparr>StandardScaler_fit := Standardizer_fit, transform := Standardizer_transform\<rparr>)
       (floats [[1, 5], [3, 5]]) (floats [[4, 7]]) = Inr (sc, floats Y_train, floats Y) \<and>
     Y ! 0 ! 1 = 7 - 5 \<and> Y_train ! 0 ! 1 = 0 \<and> Y_train ! 1 ! 1 = 0)"
proof -
  let ?X_train = "[[1, 5], [3, 5]] :: real list list"
  let ?X = "[[4, 7]] :: real list list"
  have h1: "?X_train \<noteq> []" by simp
  have h2: "\<forall>row \<in> set ?X_train. length row = 2" by simp
  have h3: "\<forall>row \<in> set ?X. length row = 2" by simp
  have c1: "\<forall>row \<in> set ?X_train. row ! 1 = 5" by simp
  have m: "mean (column ?X_train 0) = 2" "mean (column ?X_train 1) = 5"
    "std (column ?X_train 0) = 1" "std (column ?X_train 1) = 0"
    by (simp_all add: column_def mean_def std_def)
  have fit: "Standardizer_fit (floats ?X_train) = Inr \<lparr>mu = [2, 5], sigma = [1, 0]\<rparr>"
    using Standardizer_fit_floats [OF h1 h2] m
    by (simp add: training_statistics_def upt_rec numeral_nat)
  have tr: "Standardizer_transform \<lparr>mu = [2, 5], sigma = [1, 0]\<rparr> (floats ?X) = Inr (floats [[2, 2]])"
    using Standardizer_transform_floats [of "\<lparr>mu = [2, 5], sigma = [1, 0]\<rparr>" 2 ?X]
    by (simp add: standardize_def)
  have "\<exists>sc Y_train Y.
     Standardizer_fit (floats ?X_train) = Inr sc \<and>
     Standardizer_transform sc (floats ?X_train) = Inr (floats Y_train) \<and>
     Standardizer_transform sc (floats ?X) = Inr (floats Y) \<and>
     scale_cell (pk\<lparr>StandardScaler_fit := Standardizer_fit, transform := Standardizer_transform\<rparr>)
       (floats ?X_train) (floats ?X) = Inr (sc, floats Y_train, floats Y) \<and>
     Y ! 0 ! 1 = 7 - 5 \<and> Y_train ! 0 ! 1 = 0 \<and> Y_train ! 1 ! 1 = 0"
    for pk :: "(unit, scaler_state, unit, unit) packages"
  proof -
    from Standardizer_uses_training_statistics [OF h1 h2 h3, of pk]
    obtain sc Y_train Y where
      a: "Standardizer_fit (floats ?X_train) = Inr sc"
        "Standardizer_transform sc (floats ?X_train) = Inr (floats Y_train)"
        "Standardizer_transform sc (floats ?X) = Inr (floats Y)"
        "scale_cell (pk\<lparr>StandardScaler_fit := Standardizer_fit, transform := Standardizer_transform\<rparr>)
           (floats ?X_train) (floats ?X) = Inr (sc, floats Y_train, floats Y)"
      and b: "\<forall>j < 2. \<forall>c. (\<forall>row \<in> set ?X_train. row ! j = c) \<longrightarrow>
        std (column ?X_train j) = 0 \<and>
        (\<forall>i < length ?X. Y ! i ! j = ?X ! i ! j - c) \<and>
        (\<forall>i < length ?X_train. Y_train ! i ! j = 0)"
      by blast
    from b c1 have "(\<forall>i < length ?X. Y ! i ! 1 = ?X ! i ! 1 - 5) \<and>
        (\<forall>i < length ?X_train. Y_train ! i ! 1 = 0)"
      by (metis one_less_numeral_iff semiring_norm(76))
    then have "Y ! 0 ! 1 = 7 - 5" "Y_train ! 0 ! 1 = 0" "Y_train ! 1 ! 1 = 0"
      by simp_all
    with a show ?thesis by blast
  qed
  then show ?thesis
    using fit tr by blast
qed

end
